theory Spec2Isabelle
  imports Main "HOL-Library.Word"
begin

section \<open>The shopping-assistant API: session store and chat pipeline\<close>

text \<open>
  A shallow embedding of the request handlers of \<^verbatim>\<open>fastapi.py\<close>. Every handler is a
  function from the process state to a result and the state after the call. A raised
  \<^verbatim>\<open>HTTPException\<close> is the \<open>Inl\<close> of the result, a returned body the \<open>Inr\<close>. The
  handlers are modelled one request at a time: the interleaving of two requests at an
  \<^verbatim>\<open>await\<close> is outside this model.
\<close>

subsection \<open>Values\<close>

type_synonym bytes = "8 word list"

text \<open>A Python exception: its class name and what \<^verbatim>\<open>str(e)\<close> gives.\<close>

datatype py_exception = PyException (exc_class: string) (str: string)

definition IndexError :: py_exception where
  "IndexError = PyException ''IndexError'' ''list index out of range''"

datatype HTTPException = HTTPException (status_code: nat) (detail: string)

text \<open>The pydantic models. \<^verbatim>\<open>MessageModel(...).dict()\<close> is kept as the record itself.\<close>

record ChatRequest =
  session_id :: string
  message :: string
  image_data :: "string option"

text \<open>
  \<^verbatim>\<open>ChatResponse\<close> has the fields \<^verbatim>\<open>type\<close>, \<^verbatim>\<open>message\<close>, \<^verbatim>\<open>products_html\<close>,
  \<^verbatim>\<open>continue_conversation\<close> and \<^verbatim>\<open>timestamp\<close>; the three names it shares with the
  other models carry the prefix \<open>response_\<close> here.
\<close>

record ChatResponse =
  response_type :: string
  response_message :: string
  products_html :: "string option"
  continue_conversation :: bool
  response_timestamp :: string

record MessageModel =
  role :: string
  content :: string
  timestamp :: string
  type :: "string option"

text \<open>
  The dictionary returned by \<^verbatim>\<open>ConversationAgent.process_query\<close>, read by the handler
  at the keys \<^verbatim>\<open>have_further_conversation\<close>, \<^verbatim>\<open>message\<close> and \<^verbatim>\<open>data\<close>.
\<close>

record 'd conversation_response =
  have_further_conversation :: bool
  reply_message :: string
  data :: 'd

text \<open>
  Modelled from the spec: the class \<^verbatim>\<open>ConversationAgent\<close> of \<^verbatim>\<open>conversation.py\<close> is
  missing. The spec gives the Conversation Engine an internal dialogue state, owned by
  the instance, next to the credentials it was configured with.
\<close>

record 'ds ConversationAgent =
  agent_api_key :: string
  agent_llm_mode :: string
  dialogue :: 'ds

text \<open>One entry of \<^verbatim>\<open>agents_store\<close>.\<close>

record ('ds, 'team, 'img) session =
  conversation_agent :: "'ds ConversationAgent"
  shopping_team :: 'team
  image_processor :: 'img
  messages :: "MessageModel list"
  created_at :: string

text \<open>
  The calls made to the collaborators and to \<^verbatim>\<open>base64.b64decode\<close>, with their
  arguments, in the order they are made. The source keeps no such list: it is recorded
  here so that which collaborator a request invokes, and with what, can be stated.
\<close>

datatype 'd call =
    Call_ConversationAgent string string
  | Call_ShoppingTeam string string string string string
  | Call_ProductImageProcessingAgent string string
  | Call_b64decode string
  | Call_process_image bytes string
  | Call_process_query string
  | Call_run 'd
  | Call_reset

record ('ds, 'team, 'img, 'd) state =
  agents_store :: "string \<rightharpoonup> ('ds, 'team, 'img) session"
  calls :: "'d call list"

subsection \<open>The collaborators\<close>

text \<open>
  Modelled from the spec: \<^verbatim>\<open>conversation.py\<close>, \<^verbatim>\<open>shopping_team.py\<close> and
  \<^verbatim>\<open>image_processing.py\<close> are missing, so the methods the handlers call are parameters.
  After the spec's adapter contracts, the Image Interpreter and the Product Search Engine
  compute a text from their arguments (\<open>interpret(image, hint) -> text\<close>,
  \<open>search(structured_data) -> rendered_output\<close>) and only the Conversation Engine keeps
  a state between calls. Each call may raise. \<^verbatim>\<open>base64.b64decode\<close> of the standard
  library is a parameter as well.
\<close>

record ('ds, 'team, 'img, 'd) collaborators =
  b64decode :: "string \<Rightarrow> py_exception + bytes"
  new_shopping_team ::
    "string \<Rightarrow> string \<Rightarrow> string \<Rightarrow> string \<Rightarrow> string \<Rightarrow> py_exception + 'team"
  new_image_processor :: "string \<Rightarrow> string \<Rightarrow> py_exception + 'img"
  process_image :: "'img \<Rightarrow> bytes \<Rightarrow> string \<Rightarrow> py_exception + string"
  process_query ::
    "'ds ConversationAgent \<Rightarrow> string \<Rightarrow>
       (py_exception + 'd conversation_response) \<times> 'ds ConversationAgent"
  run :: "'team \<Rightarrow> 'd \<Rightarrow> py_exception + string"
  initial_dialogue :: 'ds

text \<open>
  Modelled from the spec: the constructor and the method \<^verbatim>\<open>reset\<close> of the missing
  class \<^verbatim>\<open>ConversationAgent\<close>. A new engine starts in its initial dialogue state, and
  \<open>reset()\<close> returns the engine to its initial dialogue state.
\<close>

definition new_conversation_agent ::
  "('ds, 'team, 'img, 'd) collaborators \<Rightarrow> string \<Rightarrow> string \<Rightarrow> 'ds ConversationAgent" where
  "new_conversation_agent env api_key llm_mode =
     \<lparr>agent_api_key = api_key, agent_llm_mode = llm_mode, dialogue = initial_dialogue env\<rparr>"

definition reset ::
  "('ds, 'team, 'img, 'd) collaborators \<Rightarrow> 'ds ConversationAgent \<Rightarrow>
     py_exception + 'ds ConversationAgent" where
  "reset env agent = Inr (agent\<lparr>dialogue := initial_dialogue env\<rparr>)"

subsection \<open>Python helpers\<close>

text \<open>\<^verbatim>\<open>s.split(sep)\<close> for a separator of one character.\<close>

fun split :: "char \<Rightarrow> string \<Rightarrow> string list" where
  "split sep [] = [[]]"
| "split sep (c # cs) =
     (if c = sep then [] # split sep cs
      else (c # hd (split sep cs)) # tl (split sep cs))"

text \<open>\<^verbatim>\<open>xs[i]\<close> for \<open>i \<ge> 0\<close>: an index out of range raises \<^verbatim>\<open>IndexError\<close>.\<close>

definition subscript :: "'a list \<Rightarrow> nat \<Rightarrow> py_exception + 'a" where
  "subscript xs i = (if i < length xs then Inr (xs ! i) else Inl IndexError)"

definition log_call ::
  "'d call \<Rightarrow> ('ds, 'team, 'img, 'd) state \<Rightarrow> ('ds, 'team, 'img, 'd) state" where
  "log_call c st = st\<lparr>calls := calls st @ [c]\<rparr>"

text \<open>
  \<^verbatim>\<open>agents = agents_store[session_id]\<close> is a reference to the stored dictionary, so a
  mutation through \<^verbatim>\<open>agents\<close> is a write to the store.
\<close>

definition put_session ::
  "string \<Rightarrow> ('ds, 'team, 'img) session \<Rightarrow> ('ds, 'team, 'img, 'd) state \<Rightarrow>
     ('ds, 'team, 'img, 'd) state" where
  "put_session sid s st = st\<lparr>agents_store := (agents_store st)(sid \<mapsto> s)\<rparr>"

subsection \<open>\<^verbatim>\<open>POST /api/config\<close>\<close>

record ConfigRequest =
  api_key_llm :: string
  api_key_search_tool :: string
  api_key_firecrawl :: string
  web_search_mode :: string
  llm_mode :: string

record SessionResponse =
  new_session_id :: string
  success :: bool
  info :: string

text \<open>
  \<open>uuid4\<close> is the value \<^verbatim>\<open>str(uuid.uuid4())\<close> draws and \<open>now\<close> the reading of
  \<^verbatim>\<open>datetime.now()\<close>. The dictionary is built before it is stored, so a constructor that
  raises leaves the store as it was.
\<close>

definition setup_agents ::
  "('ds, 'team, 'img, 'd) collaborators \<Rightarrow> string \<Rightarrow> string \<Rightarrow> ConfigRequest \<Rightarrow>
     ('ds, 'team, 'img, 'd) state \<Rightarrow>
     (HTTPException + SessionResponse) \<times> ('ds, 'team, 'img, 'd) state" where
  "setup_agents env uuid4 now config st =
     (if \<not> (api_key_llm config \<noteq> [] \<and> api_key_search_tool config \<noteq> []
             \<and> api_key_firecrawl config \<noteq> [])
      then (Inl (HTTPException 400 ''Missing required API keys''), st)
      else
        let st1 = log_call (Call_ConversationAgent (api_key_llm config) (llm_mode config)) st;
            agent = new_conversation_agent env (api_key_llm config) (llm_mode config);
            st2 = log_call (Call_ShoppingTeam (api_key_llm config) (api_key_search_tool config)
                    (web_search_mode config) (llm_mode config) (api_key_firecrawl config)) st1
        in (case new_shopping_team env (api_key_llm config) (api_key_search_tool config)
                   (web_search_mode config) (llm_mode config) (api_key_firecrawl config) of
              Inl e \<Rightarrow>
                (Inl (HTTPException 500 (''Failed to initialize agents: '' @ str e)), st2)
            | Inr team \<Rightarrow>
                let st3 = log_call
                      (Call_ProductImageProcessingAgent (api_key_llm config) (llm_mode config)) st2
                in (case new_image_processor env (api_key_llm config) (llm_mode config) of
                      Inl e \<Rightarrow>
                        (Inl (HTTPException 500 (''Failed to initialize agents: '' @ str e)), st3)
                    | Inr img \<Rightarrow>
                        (Inr \<lparr>new_session_id = uuid4, success = True,
                              info = ''Agents initialized successfully''\<rparr>,
                         put_session uuid4
                           \<lparr>conversation_agent = agent, shopping_team = team,
                            image_processor = img, messages = [], created_at = now\<rparr> st3))))"

subsection \<open>\<^verbatim>\<open>POST /api/chat\<close>\<close>

text \<open>
  Step 1 of \<^verbatim>\<open>process_chat\<close>, the block under \<^verbatim>\<open>if chat_request.image_data:\<close>
  (\<^verbatim>\<open>None\<close> and the empty string are false). It yields the \<^verbatim>\<open>user_input\<close> of the
  later steps, or the exception raised.
\<close>

definition process_chat_image ::
  "('ds, 'team, 'img, 'd) collaborators \<Rightarrow> ChatRequest \<Rightarrow> ('ds, 'team, 'img) session \<Rightarrow>
     ('ds, 'team, 'img, 'd) state \<Rightarrow> (py_exception + string) \<times> ('ds, 'team, 'img, 'd) state" where
  "process_chat_image env chat_request agents st =
     (case image_data chat_request of
        None \<Rightarrow> (Inr (message chat_request), st)
      | Some uri \<Rightarrow>
          if uri \<noteq> [] then
            (case subscript (split CHR '','' uri) 1 of
               Inl e \<Rightarrow> (Inl e, st)
             | Inr payload \<Rightarrow>
                 let st1 = log_call (Call_b64decode payload) st
                 in (case b64decode env payload of
                       Inl e \<Rightarrow> (Inl e, st1)
                     | Inr image_bytes \<Rightarrow>
                         let st2 = log_call
                               (Call_process_image image_bytes (message chat_request)) st1
                         in (case process_image env (image_processor agents) image_bytes
                                    (message chat_request) of
                               Inl e \<Rightarrow> (Inl e, st2)
                             | Inr image_content \<Rightarrow> (Inr image_content, st2))))
          else (Inr (message chat_request), st))"

text \<open>
  The body of the \<^verbatim>\<open>try\<close> block. \<open>now k\<close> is the \<open>k\<close>-th reading of
  \<^verbatim>\<open>datetime.now().isoformat()\<close> during the call.
\<close>

definition process_chat_try ::
  "('ds, 'team, 'img, 'd) collaborators \<Rightarrow> (nat \<Rightarrow> string) \<Rightarrow> ChatRequest \<Rightarrow>
     ('ds, 'team, 'img) session \<Rightarrow> ('ds, 'team, 'img, 'd) state \<Rightarrow>
     (py_exception + ChatResponse) \<times> ('ds, 'team, 'img, 'd) state" where
  "process_chat_try env now chat_request agents st =
     (case process_chat_image env chat_request agents st of
        (Inl e, st1) \<Rightarrow> (Inl e, st1)
      | (Inr user_input, st1) \<Rightarrow>
          let user_message =
                \<lparr>role = ''user'', content = user_input, timestamp = now 0, type = None\<rparr>;
              agents1 = agents\<lparr>messages := messages agents @ [user_message]\<rparr>;
              st2 = put_session (session_id chat_request) agents1 st1;
              st3 = log_call (Call_process_query user_input) st2
          in (case process_query env (conversation_agent agents1) user_input of
               (Inl e, agent') \<Rightarrow>
                 (Inl e,
                  put_session (session_id chat_request)
                    (agents1\<lparr>conversation_agent := agent'\<rparr>) st3)
             | (Inr conversation_response, agent') \<Rightarrow>
                 let agents2 = agents1\<lparr>conversation_agent := agent'\<rparr>;
                     assistant_message =
                       \<lparr>role = ''assistant'', content = reply_message conversation_response,
                        timestamp = now 1, type = None\<rparr>;
                     agents3 = agents2\<lparr>messages := messages agents2 @ [assistant_message]\<rparr>;
                     st4 = put_session (session_id chat_request) agents3 st3
                 in if have_further_conversation conversation_response then
                      (Inr \<lparr>response_type = ''conversation'',
                            response_message = reply_message conversation_response,
                            products_html = None,
                            continue_conversation = True,
                            response_timestamp = now 2\<rparr>, st4)
                    else
                      let st5 = log_call (Call_run (data conversation_response)) st4
                      in (case run env (shopping_team agents3) (data conversation_response) of
                           Inl e \<Rightarrow> (Inl e, st5)
                         | Inr shopping_content \<Rightarrow>
                             let product_message =
                                   \<lparr>role = ''assistant'', content = shopping_content,
                                    timestamp = now 2, type = Some ''product_results''\<rparr>;
                                 agents4 = agents3
                                   \<lparr>messages := messages agents3 @ [product_message]\<rparr>
                             in (Inr \<lparr>response_type = ''product_search'',
                                      response_message = reply_message conversation_response,
                                      products_html = Some shopping_content,
                                      continue_conversation = False,
                                      response_timestamp = now 3\<rparr>,
                                 put_session (session_id chat_request) agents4 st5))))"

definition process_chat ::
  "('ds, 'team, 'img, 'd) collaborators \<Rightarrow> (nat \<Rightarrow> string) \<Rightarrow> ChatRequest \<Rightarrow>
     ('ds, 'team, 'img, 'd) state \<Rightarrow>
     (HTTPException + ChatResponse) \<times> ('ds, 'team, 'img, 'd) state" where
  "process_chat env now chat_request st =
     (case agents_store st (session_id chat_request) of
        None \<Rightarrow>
          (Inl (HTTPException 404 ''Session not found. Please configure agents first.''), st)
      | Some agents \<Rightarrow>
          (case process_chat_try env now chat_request agents st of
             (Inl e, st') \<Rightarrow> (Inl (HTTPException 500 (''Processing error: '' @ str e)), st')
           | (Inr response, st') \<Rightarrow> (Inr response, st')))"

subsection \<open>The other session endpoints\<close>

definition get_messages ::
  "string \<Rightarrow> ('ds, 'team, 'img, 'd) state \<Rightarrow>
     (HTTPException + MessageModel list) \<times> ('ds, 'team, 'img, 'd) state" where
  "get_messages sid st =
     (case agents_store st sid of
        Some s \<Rightarrow> (Inr (messages s), st)
      | None \<Rightarrow> (Inr [], st))"

text \<open>
  \<^verbatim>\<open>clear_conversation\<close> empties the list before it calls \<^verbatim>\<open>reset()\<close>, inside one
  \<^verbatim>\<open>try\<close> block.
\<close>

definition clear_conversation ::
  "('ds, 'team, 'img, 'd) collaborators \<Rightarrow> string \<Rightarrow> ('ds, 'team, 'img, 'd) state \<Rightarrow>
     (HTTPException + bool \<times> string) \<times> ('ds, 'team, 'img, 'd) state" where
  "clear_conversation env sid st =
     (case agents_store st sid of
        None \<Rightarrow> (Inl (HTTPException 404 ''Session not found''), st)
      | Some s \<Rightarrow>
          let s1 = s\<lparr>messages := []\<rparr>;
              st1 = log_call Call_reset (put_session sid s1 st)
          in (case reset env (conversation_agent s1) of
               Inl e \<Rightarrow>
                 (Inl (HTTPException 500 (''Failed to clear conversation: '' @ str e)), st1)
             | Inr agent' \<Rightarrow>
                 (Inr (True, ''Conversation cleared''),
                  put_session sid (s1\<lparr>conversation_agent := agent'\<rparr>) st1)))"

definition delete_session ::
  "string \<Rightarrow> ('ds, 'team, 'img, 'd) state \<Rightarrow>
     (HTTPException + bool \<times> string) \<times> ('ds, 'team, 'img, 'd) state" where
  "delete_session sid st =
     (case agents_store st sid of
        Some s \<Rightarrow>
          (Inr (True, ''Session deleted''), st\<lparr>agents_store := (agents_store st)(sid := None)\<rparr>)
      | None \<Rightarrow> (Inl (HTTPException 404 ''Session not found''), st))"

subsection \<open>\<^verbatim>\<open>POST /api/upload-image/{session_id}\<close>\<close>

record UploadFile =
  filename :: "string option"
  content_type :: "string option"
  file_content :: bytes

record upload_response =
  upload_success :: bool
  extracted_text :: string
  upload_filename :: "string option"

text \<open>
  \<^verbatim>\<open>file.content_type\<close> is optional. On \<^verbatim>\<open>None\<close> the call of \<^verbatim>\<open>startswith\<close> raises
  outside the \<^verbatim>\<open>try\<close> block, which the framework answers with status 500.
\<close>

definition upload_image ::
  "('ds, 'team, 'img, 'd) collaborators \<Rightarrow> string \<Rightarrow> UploadFile \<Rightarrow>
     ('ds, 'team, 'img, 'd) state \<Rightarrow>
     (HTTPException + upload_response) \<times> ('ds, 'team, 'img, 'd) state" where
  "upload_image env sid file st =
     (case agents_store st sid of
        None \<Rightarrow> (Inl (HTTPException 404 ''Session not found''), st)
      | Some agents \<Rightarrow>
          (case content_type file of
             None \<Rightarrow> (Inl (HTTPException 500 ''Internal Server Error''), st)
           | Some ct \<Rightarrow>
               if \<not> (take 6 ct = ''image/'')
               then (Inl (HTTPException 400 ''File must be an image''), st)
               else
                 let st1 = log_call (Call_process_image (file_content file) '''') st
                 in (case process_image env (image_processor agents) (file_content file) '''' of
                      Inl e \<Rightarrow>
                        (Inl (HTTPException 500 (''Image processing error: '' @ str e)), st1)
                    | Inr image_content \<Rightarrow>
                        (Inr \<lparr>upload_success = True, extracted_text = image_content,
                              upload_filename = filename file\<rparr>, st1))))"

subsection \<open>The status of an answer\<close>

text \<open>A returned body is sent with status 200, a raised \<^verbatim>\<open>HTTPException\<close> with its own.\<close>

definition response_status :: "HTTPException + 'a \<Rightarrow> nat" where
  "response_status r = (case r of Inl e \<Rightarrow> status_code e | Inr body \<Rightarrow> 200)"

subsection \<open>The payload convention in the words of the specification\<close>

text \<open>
  The specification describes the image payload of \<^verbatim>\<open>/chat\<close> as a prefix, the first
  comma, and the remainder of the string.
\<close>

definition remainder_after_first_comma :: "string \<Rightarrow> string" where
  "remainder_after_first_comma s = tl (dropWhile (\<lambda>c. c \<noteq> CHR '','') s)"

text \<open>The text between the first comma and the next one, or the end of the string.\<close>

definition text_between_first_commas :: "string \<Rightarrow> string" where
  "text_between_first_commas s
     = takeWhile (\<lambda>c. c \<noteq> CHR '','') (remainder_after_first_comma s)"


subsection \<open>An example configuration\<close>

text \<open>
  Collaborators to run the handlers on: an engine that asks one question back and hands
  over to the search on the second turn, a search that renders its payload, an
  interpreter that describes any non-empty image, and a decoder that knows the encoding
  \<^verbatim>\<open>aGk=\<close> of the two bytes \<^verbatim>\<open>hi\<close> and reports wrong padding otherwise.
\<close>

definition example_env :: "(nat, string, string, string) collaborators" where
  "example_env =
     \<lparr>b64decode = (\<lambda>s. if s = ''aGk='' then Inr [104, 105]
                        else Inl (PyException ''binascii.Error'' ''Incorrect padding'')),
      new_shopping_team = (\<lambda>k1 k2 tool mode k3. Inr (''team:'' @ tool)),
      new_image_processor = (\<lambda>k mode. Inr (''vision:'' @ mode)),
      process_image = (\<lambda>img image_bytes hint.
         if image_bytes = [] then Inl (PyException ''ValueError'' ''empty image'')
         else Inr ''a pair of red running shoes''),
      process_query = (\<lambda>agent text.
         if text = [] then (Inl (PyException ''ValueError'' ''empty query''), agent)
         else if dialogue agent = 0
           then (Inr \<lparr>have_further_conversation = True,
                       reply_message = ''Which size and budget?'', data = []\<rparr>,
                 agent\<lparr>dialogue := 1\<rparr>)
           else (Inr \<lparr>have_further_conversation = False,
                       reply_message = ''Searching now.'', data = text\<rparr>,
                 agent\<lparr>dialogue := Suc (dialogue agent)\<rparr>)),
      run = (\<lambda>team payload.
         if payload = ''nothing'' then Inl (PyException ''RuntimeError'' ''search failed'')
         else Inr (''<ul><li>'' @ payload @ ''</li></ul>'')),
      initial_dialogue = 0\<rparr>"

definition example_now :: "nat \<Rightarrow> string" where
  "example_now k = ''2025-01-01T00:00:0'' @ [''0123456789'' ! k]"

definition example_session :: "nat \<Rightarrow> MessageModel list \<Rightarrow> (nat, string, string) session" where
  "example_session n ms =
     \<lparr>conversation_agent = \<lparr>agent_api_key = ''k1'', agent_llm_mode = ''OpenAI'', dialogue = n\<rparr>,
      shopping_team = ''team:Tavily'', image_processor = ''vision:OpenAI'',
      messages = ms, created_at = ''2025-01-01T00:00:00''\<rparr>"

definition example_state ::
  "nat \<Rightarrow> MessageModel list \<Rightarrow> (nat, string, string, string) state" where
  "example_state n ms = \<lparr>agents_store = [''s1'' \<mapsto> example_session n ms], calls = []\<rparr>"

section \<open>Splitting at the separator\<close>

text \<open>
  The first piece of \<^verbatim>\<open>s.split(sep)\<close> is the text before the first separator, and the
  other pieces are those of the text after it. The recursion equations are applied by
  hand from here on.
\<close>

declare split.simps [simp del]

lemma split_not_Nil: "split sep s \<noteq> []"
  by (induction s) (auto simp add: split.simps)

lemma hd_split: "hd (split sep s) = takeWhile (\<lambda>c. c \<noteq> sep) s"
  by (induction s) (auto simp add: split.simps)

lemma tl_split:
  "tl (split sep s)
     = (if sep \<in> set s then split sep (tl (dropWhile (\<lambda>c. c \<noteq> sep) s)) else [])"
  by (induction s) (auto simp add: split.simps)

lemma length_split: "1 < length (split sep s) \<longleftrightarrow> sep \<in> set s"
proof -
  have "length (split sep s) = Suc (length (tl (split sep s)))"
    using split_not_Nil [of sep s] by (cases "split sep s") auto
  then show ?thesis
    using split_not_Nil [of sep "tl (dropWhile (\<lambda>c. c \<noteq> sep) s)"]
    by (auto simp add: tl_split)
qed


lemma subscript_split_1:
  "subscript (split sep s) (Suc 0)
     = (if sep \<in> set s
        then Inr (takeWhile (\<lambda>c. c \<noteq> sep) (tl (dropWhile (\<lambda>c. c \<noteq> sep) s)))
        else Inl IndexError)"
proof (cases "sep \<in> set s")
  case True
  then have "split sep s ! Suc 0 = hd (tl (split sep s))"
    using length_split [of sep s] by (cases "split sep s"; cases "tl (split sep s)") auto
  with True show ?thesis
    using length_split [of sep s] by (simp add: subscript_def tl_split hd_split)
next
  case False
  then show ?thesis
    using length_split [of sep s] by (simp add: subscript_def)
qed

section \<open>Properties of the chat pipeline\<close>

subsection \<open>The paths through \<^verbatim>\<open>process_chat\<close>\<close>

text \<open>
  Step 1 writes nothing to the store, and it calls neither the Conversation Engine nor
  the Product Search Engine.
\<close>

lemma image_stage_store:
  "process_chat_image env chat_request agents st = (r, st1) \<Longrightarrow> agents_store st1 = agents_store st"
  by (auto simp add: process_chat_image_def log_call_def Let_def split: option.splits sum.splits if_splits)


lemma path_image_raises:
  assumes "agents_store st (session_id chat_request) = Some agents"
    and "process_chat_image env chat_request agents st = (Inl e, st1)"
  shows "process_chat env now chat_request st
      = (Inl (HTTPException 500 (''Processing error: '' @ str e)), st1)"
  using assms by (simp add: process_chat_def process_chat_try_def)

lemma path_query_raises:
  assumes "agents_store st (session_id chat_request) = Some agents"
    and "process_chat_image env chat_request agents st = (Inr user_input, st1)"
    and "process_query env (conversation_agent agents) user_input = (Inl e, agent')"
  shows "process_chat env now chat_request st
      = (Inl (HTTPException 500 (''Processing error: '' @ str e)),
         put_session (session_id chat_request)
           (agents\<lparr>messages := messages agents
               @ [\<lparr>role = ''user'', content = user_input, timestamp = now 0, type = None\<rparr>],
              conversation_agent := agent'\<rparr>)
           (log_call (Call_process_query user_input) st1))"
  using assms
  by (simp add: process_chat_def process_chat_try_def Let_def put_session_def log_call_def)

lemma path_conversation:
  assumes "agents_store st (session_id chat_request) = Some agents"
    and "process_chat_image env chat_request agents st = (Inr user_input, st1)"
    and "process_query env (conversation_agent agents) user_input
           = (Inr conversation_response, agent')"
    and "have_further_conversation conversation_response"
  shows "process_chat env now chat_request st
      = (Inr \<lparr>response_type = ''conversation'',
               response_message = reply_message conversation_response,
               products_html = None, continue_conversation = True,
               response_timestamp = now 2\<rparr>,
         put_session (session_id chat_request)
           (agents\<lparr>conversation_agent := agent',
              messages := messages agents
               @ [\<lparr>role = ''user'', content = user_input, timestamp = now 0, type = None\<rparr>,
                  \<lparr>role = ''assistant'', content = reply_message conversation_response,
                   timestamp = now 1, type = None\<rparr>]\<rparr>)
           (log_call (Call_process_query user_input) st1))"
  using assms
  by (simp add: process_chat_def process_chat_try_def Let_def put_session_def log_call_def)

lemma path_run_raises:
  assumes "agents_store st (session_id chat_request) = Some agents"
    and "process_chat_image env chat_request agents st = (Inr user_input, st1)"
    and "process_query env (conversation_agent agents) user_input
           = (Inr conversation_response, agent')"
    and "\<not> have_further_conversation conversation_response"
    and "run env (shopping_team agents) (data conversation_response) = Inl e"
  shows "process_chat env now chat_request st
      = (Inl (HTTPException 500 (''Processing error: '' @ str e)),
         log_call (Call_run (data conversation_response))
          (put_session (session_id chat_request)
           (agents\<lparr>conversation_agent := agent',
              messages := messages agents
               @ [\<lparr>role = ''user'', content = user_input, timestamp = now 0, type = None\<rparr>,
                  \<lparr>role = ''assistant'', content = reply_message conversation_response,
                   timestamp = now 1, type = None\<rparr>]\<rparr>)
           (log_call (Call_process_query user_input) st1)))"
  using assms
  by (simp add: process_chat_def process_chat_try_def Let_def put_session_def log_call_def)

lemma path_product_search:
  assumes "agents_store st (session_id chat_request) = Some agents"
    and "process_chat_image env chat_request agents st = (Inr user_input, st1)"
    and "process_query env (conversation_agent agents) user_input
           = (Inr conversation_response, agent')"
    and "\<not> have_further_conversation conversation_response"
    and "run env (shopping_team agents) (data conversation_response) = Inr shopping_content"
  shows "process_chat env now chat_request st
      = (Inr \<lparr>response_type = ''product_search'',
               response_message = reply_message conversation_response,
               products_html = Some shopping_content, continue_conversation = False,
               response_timestamp = now 3\<rparr>,
         put_session (session_id chat_request)
           (agents\<lparr>conversation_agent := agent',
              messages := messages agents
               @ [\<lparr>role = ''user'', content = user_input, timestamp = now 0, type = None\<rparr>,
                  \<lparr>role = ''assistant'', content = reply_message conversation_response,
                   timestamp = now 1, type = None\<rparr>,
                  \<lparr>role = ''assistant'', content = shopping_content,
                   timestamp = now 2, type = Some ''product_results''\<rparr>]\<rparr>)
           (log_call (Call_run (data conversation_response))
             (log_call (Call_process_query user_input) st1)))"
  using assms
  by (simp add: process_chat_def process_chat_try_def Let_def put_session_def log_call_def)

text \<open>
  With an image that decodes, step 1 ends with what the Image Interpreter returns or
  raises. Once step 1 has returned a text, the user message with that text is appended
  and the Conversation Engine is called with it, whatever happens later in the turn.
\<close>

lemma image_stage_decoded:
  assumes "image_data chat_request = Some uri" and "uri \<noteq> []"
    and "subscript (split CHR '','' uri) 1 = Inr encoded"
    and "b64decode env encoded = Inr image_bytes"
    and "process_image env (image_processor agents) image_bytes (message chat_request) = r"
  shows "process_chat_image env chat_request agents st
      = (r, log_call (Call_process_image image_bytes (message chat_request))
              (log_call (Call_b64decode encoded) st))"
  using assms by (auto simp add: process_chat_image_def Let_def split: sum.splits)

lemma path_after_image:
  assumes "agents_store st (session_id chat_request) = Some agents"
    and "process_chat_image env chat_request agents st = (Inr user_input, st1)"
  shows "\<exists>s' ms cs.
      agents_store (snd (process_chat env now chat_request st)) (session_id chat_request)
        = Some s'
    \<and> messages s' = messages agents
        @ \<lparr>role = ''user'', content = user_input, timestamp = now 0, type = None\<rparr> # ms
    \<and> calls (snd (process_chat env now chat_request st))
        = calls st1 @ Call_process_query user_input # cs"
proof -
  obtain r agent' where q: "process_query env (conversation_agent agents) user_input = (r, agent')"
    by (cases "process_query env (conversation_agent agents) user_input")
  show ?thesis
  proof (cases r)
    case (Inl e)
    with q show ?thesis
      by (simp add: path_query_raises [OF assms] put_session_def log_call_def)
  next
    case (Inr conversation_response)
    note q' = q [unfolded Inr]
    show ?thesis
    proof (cases "have_further_conversation conversation_response")
      case True
      show ?thesis
        by (simp add: path_conversation [OF assms q' True] put_session_def log_call_def)
    next
      case False
      show ?thesis
      proof (cases "run env (shopping_team agents) (data conversation_response)")
        case (Inl e)
        show ?thesis
          by (simp add: path_run_raises [OF assms q' False Inl] put_session_def
              log_call_def)
      next
        case (Inr shopping_content)
        show ?thesis
          by (simp add: path_product_search [OF assms q' False Inr] put_session_def
              log_call_def)
      qed
    qed
  qed
qed

subsection \<open>Branching on the Conversation Engine's answer\<close>



text \<open>
  Claim C2. On a turn in which the Conversation Engine answers with
  \<^verbatim>\<open>have_further_conversation\<close> false and the Product Search Engine renders a result,
  the log of the session grows by the user message, the assistant reply and then exactly
  one assistant message tagged \<^verbatim>\<open>product_results\<close>, whose content is the rendered
  result; the response has type \<^verbatim>\<open>product_search\<close> and carries the same rendered
  result as \<^verbatim>\<open>products_html\<close>.
\<close>

theorem process_chat_product_search:
  assumes "agents_store st (session_id chat_request) = Some agents"
    and "process_chat_image env chat_request agents st = (Inr user_input, st1)"
    and "process_query env (conversation_agent agents) user_input
           = (Inr conversation_response, agent')"
    and "\<not> have_further_conversation conversation_response"
    and "run env (shopping_team agents) (data conversation_response) = Inr shopping_content"
  shows "fst (process_chat env now chat_request st)
        = Inr \<lparr>response_type = ''product_search'',
               response_message = reply_message conversation_response,
               products_html = Some shopping_content, continue_conversation = False,
               response_timestamp = now 3\<rparr>
    \<and> (\<exists>s'. agents_store (snd (process_chat env now chat_request st))
               (session_id chat_request) = Some s'
          \<and> messages s' = messages agents
               @ [\<lparr>role = ''user'', content = user_input, timestamp = now 0, type = None\<rparr>,
                  \<lparr>role = ''assistant'', content = reply_message conversation_response,
                   timestamp = now 1, type = None\<rparr>,
                  \<lparr>role = ''assistant'', content = shopping_content,
                   timestamp = now 2, type = Some ''product_results''\<rparr>]
          \<and> length (filter (\<lambda>m. type m = Some ''product_results'')
                 (drop (length (messages agents)) (messages s'))) = 1)
    \<and> calls (snd (process_chat env now chat_request st))
        = calls st1 @ [Call_process_query user_input, Call_run (data conversation_response)]"
  by (simp add: path_product_search [OF assms] put_session_def log_call_def)

theorem process_chat_product_search_witness:
  "fst (process_chat example_env example_now
          \<lparr>session_id = ''s1'', message = ''size 10'', image_data = None\<rparr>
          (example_state 1 []))
     = Inr \<lparr>response_type = ''product_search'', response_message = ''Searching now.'',
            products_html = Some ''<ul><li>size 10</li></ul>'', continue_conversation = False,
            response_timestamp = ''2025-01-01T00:00:03''\<rparr>
   \<and> fst (get_messages ''s1'' (snd (process_chat example_env example_now
          \<lparr>session_id = ''s1'', message = ''size 10'', image_data = None\<rparr>
          (example_state 1 []))))
     = Inr [\<lparr>role = ''user'', content = ''size 10'', timestamp = ''2025-01-01T00:00:00'',
             type = None\<rparr>,
            \<lparr>role = ''assistant'', content = ''Searching now.'',
             timestamp = ''2025-01-01T00:00:01'', type = None\<rparr>,
            \<lparr>role = ''assistant'', content = ''<ul><li>size 10</li></ul>'',
             timestamp = ''2025-01-01T00:00:02'', type = Some ''product_results''\<rparr>]
   \<and> calls (snd (process_chat example_env example_now
          \<lparr>session_id = ''s1'', message = ''size 10'', image_data = None\<rparr>
          (example_state 1 [])))
     = [Call_process_query ''size 10'', Call_run ''size 10'']"
proof -
  let ?req = "\<lparr>session_id = ''s1'', message = ''size 10'', image_data = None\<rparr>"
  have h1: "agents_store (example_state 1 []) (session_id ?req) = Some (example_session 1 [])"
    by (simp add: example_state_def)
  have h2: "process_chat_image example_env ?req (example_session 1 []) (example_state 1 [])
      = (Inr ''size 10'', example_state 1 [])"
    by (simp add: process_chat_image_def)
  have h3: "process_query example_env (conversation_agent (example_session 1 [])) ''size 10''
      = (Inr \<lparr>have_further_conversation = False, reply_message = ''Searching now.'',
              data = ''size 10''\<rparr>,
         \<lparr>agent_api_key = ''k1'', agent_llm_mode = ''OpenAI'', dialogue = 2\<rparr>)"
    by (simp add: example_env_def example_session_def)
  have h4: "\<not> have_further_conversation \<lparr>have_further_conversation = False,
      reply_message = ''Searching now.'', data = ''size 10''\<rparr>"
    by simp
  have h5: "run example_env (shopping_team (example_session 1 []))
      (data \<lparr>have_further_conversation = False, reply_message = ''Searching now.'',
              data = ''size 10''\<rparr>) = Inr ''<ul><li>size 10</li></ul>''"
    by (simp add: example_env_def)
  show ?thesis
    using process_chat_product_search [OF h1 h2 h3 h4 h5, of example_now]
    by (auto simp add: example_now_def example_state_def example_session_def get_messages_def)
qed

subsection \<open>Failure of a stage\<close>

text \<open>
  Claim C3. When a stage of a turn raises, the turn ends with status 500 and no message
  of the failing stage is appended, while the messages of the earlier steps stay: nothing
  is appended when the image stage fails, the user message stays when the Conversation
  Engine fails, the user message and the assistant reply stay when the Product Search
  Engine fails. The session stays in the store, with its earlier messages in front, and
  no other session is touched.
\<close>

theorem process_chat_partial_failure:
  assumes "agents_store st (session_id chat_request) = Some agents"
  shows "(\<forall>e st1. process_chat_image env chat_request agents st = (Inl e, st1) \<longrightarrow>
            fst (process_chat env now chat_request st)
              = Inl (HTTPException 500 (''Processing error: '' @ str e))
          \<and> agents_store (snd (process_chat env now chat_request st)) = agents_store st)
    \<and> (\<forall>user_input st1 e agent'.
            process_chat_image env chat_request agents st = (Inr user_input, st1)
          \<and> process_query env (conversation_agent agents) user_input = (Inl e, agent') \<longrightarrow>
            fst (process_chat env now chat_request st)
              = Inl (HTTPException 500 (''Processing error: '' @ str e))
          \<and> agents_store (snd (process_chat env now chat_request st))
              = (agents_store st)(session_id chat_request \<mapsto>
                  agents\<lparr>messages := messages agents
                     @ [\<lparr>role = ''user'', content = user_input, timestamp = now 0,
                         type = None\<rparr>],
                    conversation_agent := agent'\<rparr>))
    \<and> (\<forall>user_input st1 conversation_response agent' e.
            process_chat_image env chat_request agents st = (Inr user_input, st1)
          \<and> process_query env (conversation_agent agents) user_input
              = (Inr conversation_response, agent')
          \<and> \<not> have_further_conversation conversation_response
          \<and> run env (shopping_team agents) (data conversation_response) = Inl e \<longrightarrow>
            fst (process_chat env now chat_request st)
              = Inl (HTTPException 500 (''Processing error: '' @ str e))
          \<and> agents_store (snd (process_chat env now chat_request st))
              = (agents_store st)(session_id chat_request \<mapsto>
                  agents\<lparr>conversation_agent := agent',
                    messages := messages agents
                     @ [\<lparr>role = ''user'', content = user_input, timestamp = now 0,
                         type = None\<rparr>,
                        \<lparr>role = ''assistant'', content = reply_message conversation_response,
                         timestamp = now 1, type = None\<rparr>]\<rparr>))"
proof (intro conjI allI impI)
  fix e st1
  assume h: "process_chat_image env chat_request agents st = (Inl e, st1)"
  show "fst (process_chat env now chat_request st)
      = Inl (HTTPException 500 (''Processing error: '' @ str e))"
    by (simp add: path_image_raises [OF assms h])
  show "agents_store (snd (process_chat env now chat_request st)) = agents_store st"
    by (simp add: path_image_raises [OF assms h] image_stage_store [OF h])
next
  fix user_input st1 e agent'
  assume h: "process_chat_image env chat_request agents st = (Inr user_input, st1)
    \<and> process_query env (conversation_agent agents) user_input = (Inl e, agent')"
  then have h1: "process_chat_image env chat_request agents st = (Inr user_input, st1)"
    and h2: "process_query env (conversation_agent agents) user_input = (Inl e, agent')"
    by simp_all
  show "fst (process_chat env now chat_request st)
      = Inl (HTTPException 500 (''Processing error: '' @ str e))"
    by (simp add: path_query_raises [OF assms h1 h2])
  show "agents_store (snd (process_chat env now chat_request st))
      = (agents_store st)(session_id chat_request \<mapsto>
          agents\<lparr>messages := messages agents
             @ [\<lparr>role = ''user'', content = user_input, timestamp = now 0, type = None\<rparr>],
            conversation_agent := agent'\<rparr>)"
    by (simp add: path_query_raises [OF assms h1 h2] image_stage_store [OF h1]
        put_session_def log_call_def)
next
  fix user_input st1 conversation_response agent' e
  assume h: "process_chat_image env chat_request agents st = (Inr user_input, st1)
    \<and> process_query env (conversation_agent agents) user_input
        = (Inr conversation_response, agent')
    \<and> \<not> have_further_conversation conversation_response
    \<and> run env (shopping_team agents) (data conversation_response) = Inl e"
  then have h1: "process_chat_image env chat_request agents st = (Inr user_input, st1)"
    and h2: "process_query env (conversation_agent agents) user_input
        = (Inr conversation_response, agent')"
    and h3: "\<not> have_further_conversation conversation_response"
    and h4: "run env (shopping_team agents) (data conversation_response) = Inl e"
    by simp_all
  show "fst (process_chat env now chat_request st)
      = Inl (HTTPException 500 (''Processing error: '' @ str e))"
    by (simp add: path_run_raises [OF assms h1 h2 h3 h4])
  show "agents_store (snd (process_chat env now chat_request st))
      = (agents_store st)(session_id chat_request \<mapsto>
          agents\<lparr>conversation_agent := agent',
            messages := messages agents
             @ [\<lparr>role = ''user'', content = user_input, timestamp = now 0, type = None\<rparr>,
                \<lparr>role = ''assistant'', content = reply_message conversation_response,
                 timestamp = now 1, type = None\<rparr>]\<rparr>)"
    by (simp add: path_run_raises [OF assms h1 h2 h3 h4] image_stage_store [OF h1]
        put_session_def log_call_def)
qed

theorem process_chat_partial_failure_witness:
  "agents_store (snd (process_chat example_env example_now
          \<lparr>session_id = ''s1'', message = ''these'',
           image_data = Some ''data:image/png;base64,AAA''\<rparr> (example_state 0 [])))
     = agents_store (example_state 0 [])
   \<and> agents_store (snd (process_chat example_env example_now
          \<lparr>session_id = ''s1'', message = '''', image_data = None\<rparr> (example_state 0 [])))
     = [''s1'' \<mapsto> example_session 0
          [\<lparr>role = ''user'', content = '''', timestamp = ''2025-01-01T00:00:00'', type = None\<rparr>]]
   \<and> agents_store (snd (process_chat example_env example_now
          \<lparr>session_id = ''s1'', message = ''nothing'', image_data = None\<rparr> (example_state 1 [])))
     = [''s1'' \<mapsto> example_session 2
          [\<lparr>role = ''user'', content = ''nothing'', timestamp = ''2025-01-01T00:00:00'',
            type = None\<rparr>,
           \<lparr>role = ''assistant'', content = ''Searching now.'',
            timestamp = ''2025-01-01T00:00:01'', type = None\<rparr>]]"
proof -
  let ?r1 = "\<lparr>session_id = ''s1'', message = ''these'',
             image_data = Some ''data:image/png;base64,AAA''\<rparr>"
  let ?r2 = "\<lparr>session_id = ''s1'', message = '''', image_data = None\<rparr>"
  let ?r3 = "\<lparr>session_id = ''s1'', message = ''nothing'', image_data = None\<rparr>"
  have a1: "agents_store (example_state 0 []) (session_id ?r1) = Some (example_session 0 [])"
    by (simp add: example_state_def)
  have a2: "process_chat_image example_env ?r1 (example_session 0 []) (example_state 0 [])
      = (Inl (PyException ''binascii.Error'' ''Incorrect padding''),
         log_call (Call_b64decode ''AAA'') (example_state 0 []))"
    by (simp add: process_chat_image_def subscript_split_1 example_env_def)
  have b1: "agents_store (example_state 0 []) (session_id ?r2) = Some (example_session 0 [])"
    by (simp add: example_state_def)
  have b2: "process_chat_image example_env ?r2 (example_session 0 []) (example_state 0 [])
        = (Inr '''', example_state 0 [])
      \<and> process_query example_env (conversation_agent (example_session 0 [])) ''''
        = (Inl (PyException ''ValueError'' ''empty query''),
           \<lparr>agent_api_key = ''k1'', agent_llm_mode = ''OpenAI'', dialogue = 0\<rparr>)"
    by (simp add: process_chat_image_def example_env_def example_session_def)
  have c1: "agents_store (example_state 1 []) (session_id ?r3) = Some (example_session 1 [])"
    by (simp add: example_state_def)
  have c2: "process_chat_image example_env ?r3 (example_session 1 []) (example_state 1 [])
        = (Inr ''nothing'', example_state 1 [])
      \<and> process_query example_env (conversation_agent (example_session 1 [])) ''nothing''
        = (Inr \<lparr>have_further_conversation = False, reply_message = ''Searching now.'',
                data = ''nothing''\<rparr>,
           \<lparr>agent_api_key = ''k1'', agent_llm_mode = ''OpenAI'', dialogue = 2\<rparr>)
      \<and> \<not> have_further_conversation \<lparr>have_further_conversation = False,
            reply_message = ''Searching now.'', data = ''nothing''\<rparr>
      \<and> run example_env (shopping_team (example_session 1 []))
            (data \<lparr>have_further_conversation = False, reply_message = ''Searching now.'',
                    data = ''nothing''\<rparr>)
        = Inl (PyException ''RuntimeError'' ''search failed'')"
    by (simp add: process_chat_image_def example_env_def example_session_def)
  note t1 = process_chat_partial_failure [OF a1, of example_env example_now,
      THEN conjunct1, rule_format, OF a2]
  note t2 = process_chat_partial_failure [OF b1, of example_env example_now,
      THEN conjunct2, THEN conjunct1, rule_format, OF b2]
  note t3 = process_chat_partial_failure [OF c1, of example_env example_now,
      THEN conjunct2, THEN conjunct2, rule_format, OF c2]
  show ?thesis
    using t1 t2 t3
    by (simp add: example_now_def example_state_def example_session_def)
qed

subsection \<open>The image stage\<close>

text \<open>
  Claim C5. On a turn with an image that decodes and that the Image Interpreter answers,
  the interpreter is applied to the decoded bytes and the original text, and its answer
  takes the place of the original text. The content of the user message appended to the
  log is the interpreter's answer. The Conversation Engine is applied to the
  interpreter's answer: the engine the session holds after the turn is the one that
  application leaves, the assistant message and the response carry the reply of that
  application, and an exception of that application is the one reported. Neither the
  message nor the engine's input is built from the original text.
\<close>

theorem process_chat_image_replaces_text:
  assumes "agents_store st (session_id chat_request) = Some agents"
    and "image_data chat_request = Some uri" and "uri \<noteq> []"
    and "subscript (split CHR '','' uri) 1 = Inr encoded"
    and "b64decode env encoded = Inr image_bytes"
    and "process_image env (image_processor agents) image_bytes (message chat_request)
           = Inr image_content"
    and "process_query env (conversation_agent agents) image_content = (answer, agent')"
  shows "(\<exists>s' ms cs.
        agents_store (snd (process_chat env now chat_request st)) (session_id chat_request)
          = Some s'
      \<and> messages s' = messages agents
          @ \<lparr>role = ''user'', content = image_content, timestamp = now 0, type = None\<rparr> # ms
      \<and> conversation_agent s' = agent'
      \<and> (\<forall>conversation_response. answer = Inr conversation_response \<longrightarrow>
            ms \<noteq> [] \<and> hd ms = \<lparr>role = ''assistant'',
              content = reply_message conversation_response, timestamp = now 1, type = None\<rparr>)
      \<and> calls (snd (process_chat env now chat_request st))
          = calls st @ [Call_b64decode encoded,
                        Call_process_image image_bytes (message chat_request),
                        Call_process_query image_content] @ cs)
    \<and> (\<forall>e. answer = Inl e \<longrightarrow>
          fst (process_chat env now chat_request st)
            = Inl (HTTPException 500 (''Processing error: '' @ str e)))
    \<and> (\<forall>conversation_response.
          answer = Inr conversation_response
        \<and> have_further_conversation conversation_response \<longrightarrow>
          fst (process_chat env now chat_request st)
            = Inr \<lparr>response_type = ''conversation'',
                   response_message = reply_message conversation_response,
                   products_html = None, continue_conversation = True,
                   response_timestamp = now 2\<rparr>)
    \<and> (\<forall>conversation_response shopping_content.
          answer = Inr conversation_response
        \<and> \<not> have_further_conversation conversation_response
        \<and> run env (shopping_team agents) (data conversation_response) = Inr shopping_content
        \<longrightarrow>
          fst (process_chat env now chat_request st)
            = Inr \<lparr>response_type = ''product_search'',
                   response_message = reply_message conversation_response,
                   products_html = Some shopping_content, continue_conversation = False,
                   response_timestamp = now 3\<rparr>)"
proof -
  note img = image_stage_decoded [OF assms(2-6), of st]
  show ?thesis
  proof (cases answer)
    case (Inl e)
    show ?thesis
      using Inl
      by (simp add: path_query_raises [OF assms(1) img assms(7) [unfolded Inl]]
          put_session_def log_call_def)
  next
    case (Inr conversation_response)
    note q = assms(7) [unfolded Inr]
    show ?thesis
    proof (cases "have_further_conversation conversation_response")
      case True
      show ?thesis
        using Inr True
        by (simp add: path_conversation [OF assms(1) img q True] put_session_def log_call_def)
    next
      case False
      show ?thesis
      proof (cases "run env (shopping_team agents) (data conversation_response)")
        case (Inl e)
        show ?thesis
          using Inr False Inl
          by (simp add: path_run_raises [OF assms(1) img q False Inl] put_session_def
              log_call_def)
      next
        case r: (Inr shopping_content)
        show ?thesis
          using Inr False r
          by (simp add: path_product_search [OF assms(1) img q False r] put_session_def
              log_call_def)
      qed
    qed
  qed
qed

theorem process_chat_image_replaces_text_witness:
  "(\<exists>s' ms cs.
      agents_store (snd (process_chat example_env example_now
          \<lparr>session_id = ''s1'', message = ''do you have these?'',
           image_data = Some ''data:image/png;base64,aGk=''\<rparr> (example_state 0 []))) ''s1''
        = Some s'
    \<and> messages s'
        = \<lparr>role = ''user'', content = ''a pair of red running shoes'',
           timestamp = ''2025-01-01T00:00:00'', type = None\<rparr> # ms
    \<and> conversation_agent s'
        = \<lparr>agent_api_key = ''k1'', agent_llm_mode = ''OpenAI'', dialogue = 1\<rparr>
    \<and> calls (snd (process_chat example_env example_now
          \<lparr>session_id = ''s1'', message = ''do you have these?'',
           image_data = Some ''data:image/png;base64,aGk=''\<rparr> (example_state 0 [])))
        = [Call_b64decode ''aGk='', Call_process_image [104, 105] ''do you have these?'',
           Call_process_query ''a pair of red running shoes''] @ cs)
   \<and> fst (process_chat example_env example_now
          \<lparr>session_id = ''s1'', message = ''do you have these?'',
           image_data = Some ''data:image/png;base64,aGk=''\<rparr> (example_state 0 []))
     = Inr \<lparr>response_type = ''conversation'', response_message = ''Which size and budget?'',
            products_html = None, continue_conversation = True,
            response_timestamp = ''2025-01-01T00:00:02''\<rparr>"
proof -
  let ?req = "\<lparr>session_id = ''s1'', message = ''do you have these?'',
           image_data = Some ''data:image/png;base64,aGk=''\<rparr>"
  have h1: "agents_store (example_state 0 []) (session_id ?req) = Some (example_session 0 [])"
    by (simp add: example_state_def)
  have h2: "image_data ?req = Some ''data:image/png;base64,aGk=''"
    by simp
  have h3: "''data:image/png;base64,aGk='' \<noteq> []"
    by simp
  have h4: "subscript (split CHR '','' ''data:image/png;base64,aGk='') 1 = Inr ''aGk=''"
    by (simp add: subscript_split_1)
  have h5: "b64decode example_env ''aGk='' = Inr [104, 105]"
    by (simp add: example_env_def)
  have h6: "process_image example_env (image_processor (example_session 0 [])) [104, 105]
      (message ?req) = Inr ''a pair of red running shoes''"
    by (simp add: example_env_def)
  have h7: "process_query example_env (conversation_agent (example_session 0 []))
        ''a pair of red running shoes''
      = (Inr \<lparr>have_further_conversation = True, reply_message = ''Which size and budget?'',
              data = []\<rparr>,
         \<lparr>agent_api_key = ''k1'', agent_llm_mode = ''OpenAI'', dialogue = 1\<rparr>)"
    by (simp add: example_env_def example_session_def)
  show ?thesis
    using process_chat_image_replaces_text [OF h1 h2 h3 h4 h5 h6 h7, of example_now]
    by (auto simp add: example_now_def example_state_def example_session_def)
qed

subsection \<open>A malformed image payload\<close>

text \<open>
  Claim C4. A request whose image payload is malformed leaves the log of the session as
  it was: no user message is appended for the failed turn. The whole of
  \<^verbatim>\<open>process_chat\<close> after the session lookup runs under one \<^verbatim>\<open>except Exception\<close>
  that answers with status 500, so a payload without a comma, a payload that
  \<^verbatim>\<open>base64.b64decode\<close> rejects, and decoded content that the Image Interpreter rejects
  are all answered with status 500 and the detail \<^verbatim>\<open>Processing error: ...\<close>; the
  handler has no answer with status 400.
\<close>

theorem process_chat_malformed_image:
  assumes "agents_store st (session_id chat_request) = Some agents"
    and "image_data chat_request = Some uri" and "uri \<noteq> []"
    and "subscript (split CHR '','' uri) 1 = Inl e
       \<or> (\<exists>encoded. subscript (split CHR '','' uri) 1 = Inr encoded
            \<and> (b64decode env encoded = Inl e
               \<or> (\<exists>image_bytes. b64decode env encoded = Inr image_bytes
                    \<and> process_image env (image_processor agents) image_bytes
                          (message chat_request) = Inl e)))"
  shows "fst (process_chat env now chat_request st)
        = Inl (HTTPException 500 (''Processing error: '' @ str e))
    \<and> response_status (fst (process_chat env now chat_request st)) = 500
    \<and> agents_store (snd (process_chat env now chat_request st)) = agents_store st
    \<and> fst (get_messages (session_id chat_request) (snd (process_chat env now chat_request st)))
        = Inr (messages agents)"
proof -
  obtain st1 where h: "process_chat_image env chat_request agents st = (Inl e, st1)"
    using assms(2-4)
    by (auto simp add: process_chat_image_def Let_def)
  have "agents_store st1 = agents_store st"
    by (rule image_stage_store [OF h])
  then show ?thesis
    using assms(1)
    by (simp add: path_image_raises [OF assms(1) h] response_status_def
        get_messages_def)
qed

theorem process_chat_malformed_image_witness:
  "fst (process_chat example_env example_now
          \<lparr>session_id = ''s1'', message = ''do you have these?'',
           image_data = Some ''data:image/png;base64,AAA''\<rparr> (example_state 0 []))
     = Inl (HTTPException 500 ''Processing error: Incorrect padding'')
   \<and> agents_store (snd (process_chat example_env example_now
          \<lparr>session_id = ''s1'', message = ''do you have these?'',
           image_data = Some ''data:image/png;base64,AAA''\<rparr> (example_state 0 [])))
     = agents_store (example_state 0 [])"
proof -
  let ?req = "\<lparr>session_id = ''s1'', message = ''do you have these?'',
           image_data = Some ''data:image/png;base64,AAA''\<rparr>"
  let ?e = "PyException ''binascii.Error'' ''Incorrect padding''"
  have h1: "agents_store (example_state 0 []) (session_id ?req) = Some (example_session 0 [])"
    by (simp add: example_state_def)
  have h2: "image_data ?req = Some ''data:image/png;base64,AAA''"
    by simp
  have h3: "''data:image/png;base64,AAA'' \<noteq> []"
    by simp
  have h4: "subscript (split CHR '','' ''data:image/png;base64,AAA'') 1 = Inl ?e
       \<or> (\<exists>encoded. subscript (split CHR '','' ''data:image/png;base64,AAA'') 1 = Inr encoded
            \<and> (b64decode example_env encoded = Inl ?e
               \<or> (\<exists>image_bytes. b64decode example_env encoded = Inr image_bytes
                    \<and> process_image example_env (image_processor (example_session 0 []))
                          image_bytes (message ?req) = Inl ?e)))"
    by (simp add: subscript_split_1 example_env_def)
  show ?thesis
    using process_chat_malformed_image [OF h1 h2 h3 h4, of example_now]
    by simp
qed

text \<open>
  The payload \<^verbatim>\<open>data:image/png;base64,AAA\<close> has wrongly padded base64 after its comma:
  the answer has status 500, not 400.
\<close>

theorem process_chat_malformed_image_counterexample:
  "fst (process_chat example_env example_now
          \<lparr>session_id = ''s1'', message = ''do you have these?'',
           image_data = Some ''data:image/png;base64,AAA''\<rparr> (example_state 0 []))
     = Inl (HTTPException 500 ''Processing error: Incorrect padding'')
   \<and> response_status (fst (process_chat example_env example_now
          \<lparr>session_id = ''s1'', message = ''do you have these?'',
           image_data = Some ''data:image/png;base64,AAA''\<rparr> (example_state 0 []))) \<noteq> 400"
  by (simp add: process_chat_def process_chat_try_def process_chat_image_def
      subscript_split_1 example_env_def example_state_def response_status_def Let_def)

subsection \<open>The image payload that is decoded\<close>

text \<open>
  Step 1 begins with the call of \<^verbatim>\<open>base64.b64decode\<close> on the second piece of the
  payload, and every call of step 1 is a call of the turn.
\<close>

lemma image_stage_decodes:
  assumes "image_data chat_request = Some uri" and "CHR '','' \<in> set uri"
  shows "\<exists>cs. calls (snd (process_chat_image env chat_request agents st))
      = calls st @ Call_b64decode
          (takeWhile (\<lambda>c. c \<noteq> CHR '','') (remainder_after_first_comma uri)) # cs"
proof -
  have "uri \<noteq> []"
    using assms(2) by auto
  then show ?thesis
    using assms
    by (auto simp add: process_chat_image_def subscript_split_1 remainder_after_first_comma_def
        log_call_def Let_def split: sum.splits)
qed

lemma image_stage_calls_kept:
  assumes "agents_store st (session_id chat_request) = Some agents"
  shows "\<exists>cs. calls (snd (process_chat env now chat_request st))
      = calls (snd (process_chat_image env chat_request agents st)) @ cs"
proof -
  obtain r st1 where h: "process_chat_image env chat_request agents st = (r, st1)"
    by (cases "process_chat_image env chat_request agents st")
  show ?thesis
  proof (cases r)
    case (Inl e)
    then show ?thesis
      using h by (simp add: path_image_raises [OF assms h [unfolded Inl]])
  next
    case (Inr user_input)
    then show ?thesis
      using h path_after_image [OF assms h [unfolded Inr], of now] by auto
  qed
qed

lemma subscript_split_comma:
  "CHR '','' \<in> set uri \<Longrightarrow>
     subscript (split CHR '','' uri) 1 = Inr (text_between_first_commas uri)"
  by (simp add: subscript_split_1 text_between_first_commas_def remainder_after_first_comma_def)

lemma image_stage_decode_raises:
  assumes "image_data chat_request = Some uri" and "uri \<noteq> []"
    and "subscript (split CHR '','' uri) 1 = Inr encoded"
    and "b64decode env encoded = Inl e"
  shows "process_chat_image env chat_request agents st
      = (Inl e, log_call (Call_b64decode encoded) st)"
  using assms by (simp add: process_chat_image_def Let_def)

text \<open>
  Claim C6. For a payload with at least one comma, \<^verbatim>\<open>base64.b64decode\<close> is applied to
  \<^verbatim>\<open>image_data.split(',')[1]\<close>: the text between the first comma and the next comma,
  or the end of the payload when there is no further comma; the prefix before the first
  comma is discarded. The turn goes on with what the decoder gives at that text: its
  exception is the one reported, and its bytes are the ones handed to the Image
  Interpreter, whose answer becomes the user message. That text is the whole remainder
  after the first comma when the remainder has no comma, as is the case for standard
  base64.
\<close>

theorem process_chat_decodes_second_piece:
  assumes "agents_store st (session_id chat_request) = Some agents"
    and "image_data chat_request = Some uri"
    and "CHR '','' \<in> set uri"
  shows "subscript (split CHR '','' uri) 1 = Inr (text_between_first_commas uri)
    \<and> (\<forall>e. b64decode env (text_between_first_commas uri) = Inl e \<longrightarrow>
          fst (process_chat env now chat_request st)
            = Inl (HTTPException 500 (''Processing error: '' @ str e))
        \<and> agents_store (snd (process_chat env now chat_request st)) = agents_store st)
    \<and> (\<forall>image_bytes e.
          b64decode env (text_between_first_commas uri) = Inr image_bytes
        \<and> process_image env (image_processor agents) image_bytes (message chat_request)
            = Inl e \<longrightarrow>
          fst (process_chat env now chat_request st)
            = Inl (HTTPException 500 (''Processing error: '' @ str e))
        \<and> agents_store (snd (process_chat env now chat_request st)) = agents_store st)
    \<and> (\<forall>image_bytes image_content.
          b64decode env (text_between_first_commas uri) = Inr image_bytes
        \<and> process_image env (image_processor agents) image_bytes (message chat_request)
            = Inr image_content \<longrightarrow>
          (\<exists>s' ms.
              agents_store (snd (process_chat env now chat_request st))
                (session_id chat_request) = Some s'
            \<and> messages s' = messages agents
                @ \<lparr>role = ''user'', content = image_content, timestamp = now 0,
                    type = None\<rparr> # ms))
    \<and> (CHR '','' \<notin> set (remainder_after_first_comma uri) \<longrightarrow>
          text_between_first_commas uri = remainder_after_first_comma uri)
    \<and> (\<exists>cs. calls (snd (process_chat env now chat_request st))
          = calls st @ Call_b64decode (text_between_first_commas uri) # cs)"
proof (intro conjI allI impI)
  have ne: "uri \<noteq> []"
    using assms(3) by auto
  note piece = subscript_split_comma [OF assms(3)]
  show "subscript (split CHR '','' uri) 1 = Inr (text_between_first_commas uri)"
    by (rule piece)
  {
    fix e
    assume d: "b64decode env (text_between_first_commas uri) = Inl e"
    note img = image_stage_decode_raises [OF assms(2) ne piece d, of agents st]
    show "fst (process_chat env now chat_request st)
        = Inl (HTTPException 500 (''Processing error: '' @ str e))"
      by (simp add: path_image_raises [OF assms(1) img])
    show "agents_store (snd (process_chat env now chat_request st)) = agents_store st"
      by (simp add: path_image_raises [OF assms(1) img] log_call_def)
  }
  {
    fix image_bytes e
    assume h: "b64decode env (text_between_first_commas uri) = Inr image_bytes
      \<and> process_image env (image_processor agents) image_bytes (message chat_request) = Inl e"
    then have d: "b64decode env (text_between_first_commas uri) = Inr image_bytes"
      and i: "process_image env (image_processor agents) image_bytes (message chat_request)
        = Inl e"
      by simp_all
    note img = image_stage_decoded [OF assms(2) ne piece d i, of st]
    show "fst (process_chat env now chat_request st)
        = Inl (HTTPException 500 (''Processing error: '' @ str e))"
      by (simp add: path_image_raises [OF assms(1) img])
    show "agents_store (snd (process_chat env now chat_request st)) = agents_store st"
      by (simp add: path_image_raises [OF assms(1) img] log_call_def)
  }
  {
    fix image_bytes image_content
    assume h: "b64decode env (text_between_first_commas uri) = Inr image_bytes
      \<and> process_image env (image_processor agents) image_bytes (message chat_request)
          = Inr image_content"
    then have d: "b64decode env (text_between_first_commas uri) = Inr image_bytes"
      and i: "process_image env (image_processor agents) image_bytes (message chat_request)
        = Inr image_content"
      by simp_all
    note img = image_stage_decoded [OF assms(2) ne piece d i, of st]
    show "\<exists>s' ms.
        agents_store (snd (process_chat env now chat_request st)) (session_id chat_request)
          = Some s'
      \<and> messages s' = messages agents
          @ \<lparr>role = ''user'', content = image_content, timestamp = now 0, type = None\<rparr> # ms"
      using path_after_image [OF assms(1) img, of now] by blast
  }
  {
    assume "CHR '','' \<notin> set (remainder_after_first_comma uri)"
    then show "text_between_first_commas uri = remainder_after_first_comma uri"
      by (auto simp add: text_between_first_commas_def takeWhile_eq_all_conv)
  }
  obtain cs1 where c1: "calls (snd (process_chat_image env chat_request agents st))
      = calls st @ Call_b64decode
          (takeWhile (\<lambda>c. c \<noteq> CHR '','') (remainder_after_first_comma uri)) # cs1"
    using image_stage_decodes [OF assms(2,3)] by blast
  obtain cs2 where c2: "calls (snd (process_chat env now chat_request st))
      = calls (snd (process_chat_image env chat_request agents st)) @ cs2"
    using image_stage_calls_kept [OF assms(1)] by blast
  show "\<exists>cs. calls (snd (process_chat env now chat_request st))
      = calls st @ Call_b64decode (text_between_first_commas uri) # cs"
    by (simp add: c1 c2 text_between_first_commas_def)
qed

theorem process_chat_decodes_second_piece_witness:
  "subscript (split CHR '','' ''data:image/png;base64,aGk=,aGk='') 1 = Inr ''aGk=''
   \<and> (\<exists>s' ms.
        agents_store (snd (process_chat example_env example_now
          \<lparr>session_id = ''s1'', message = ''do you have these?'',
           image_data = Some ''data:image/png;base64,aGk=,aGk=''\<rparr> (example_state 0 [])))
          ''s1'' = Some s'
      \<and> messages s'
          = \<lparr>role = ''user'', content = ''a pair of red running shoes'',
             timestamp = ''2025-01-01T00:00:00'', type = None\<rparr> # ms)
   \<and> (\<exists>cs. calls (snd (process_chat example_env example_now
          \<lparr>session_id = ''s1'', message = ''do you have these?'',
           image_data = Some ''data:image/png;base64,aGk=,aGk=''\<rparr> (example_state 0 [])))
        = Call_b64decode ''aGk='' # cs)"
proof -
  let ?req = "\<lparr>session_id = ''s1'', message = ''do you have these?'',
           image_data = Some ''data:image/png;base64,aGk=,aGk=''\<rparr>"
  have h1: "agents_store (example_state 0 []) (session_id ?req) = Some (example_session 0 [])"
    by (simp add: example_state_def)
  have h2: "image_data ?req = Some ''data:image/png;base64,aGk=,aGk=''"
    by simp
  have h3: "CHR '','' \<in> set ''data:image/png;base64,aGk=,aGk=''"
    by simp
  have piece: "text_between_first_commas ''data:image/png;base64,aGk=,aGk='' = ''aGk=''"
    by (simp add: text_between_first_commas_def remainder_after_first_comma_def)
  have h4: "b64decode example_env ''aGk='' = Inr [104, 105]
      \<and> process_image example_env (image_processor (example_session 0 [])) [104, 105]
          (message ?req) = Inr ''a pair of red running shoes''"
    by (simp add: example_env_def)
  note t = process_chat_decodes_second_piece [OF h1 h2 h3, of example_env example_now,
      unfolded piece]
  note t4 = t [THEN conjunct2, THEN conjunct2, THEN conjunct2, THEN conjunct1,
      rule_format, OF h4]
  show ?thesis
    using t [THEN conjunct1] t4
      t [THEN conjunct2, THEN conjunct2, THEN conjunct2, THEN conjunct2, THEN conjunct2]
    by (simp add: example_now_def example_state_def example_session_def)
qed

text \<open>
  With a second comma in the payload, the text decoded is not the remainder after the
  first comma: of \<^verbatim>\<open>data:image/png;base64,aGk=,aGk=\<close> only \<^verbatim>\<open>aGk=\<close> is decoded.
\<close>

theorem process_chat_decodes_second_piece_counterexample:
  "calls (snd (process_chat example_env example_now
          \<lparr>session_id = ''s1'', message = ''do you have these?'',
           image_data = Some ''data:image/png;base64,aGk=,aGk=''\<rparr> (example_state 0 [])))
     = [Call_b64decode ''aGk='', Call_process_image [104, 105] ''do you have these?'',
        Call_process_query ''a pair of red running shoes'']
   \<and> remainder_after_first_comma ''data:image/png;base64,aGk=,aGk='' = ''aGk=,aGk=''"
  by (simp add: process_chat_def process_chat_try_def process_chat_image_def
      subscript_split_1 example_env_def example_state_def example_session_def
      remainder_after_first_comma_def log_call_def put_session_def Let_def)

section \<open>Properties of the session endpoints\<close>

text \<open>
  Claim C7. Clearing an existing session succeeds; afterwards reading its messages gives
  the empty list, the session is still in the store with the same shopping team, image
  processor, creation time and engine credentials, the dialogue state of its engine is
  the one a newly constructed engine has, and the only collaborator call made is
  \<^verbatim>\<open>reset\<close>: no collaborator is constructed. No other session is touched.
\<close>

theorem clear_conversation_roundtrip:
  assumes "agents_store st sid = Some s"
  shows "fst (clear_conversation env sid st) = Inr (True, ''Conversation cleared'')
    \<and> fst (get_messages sid (snd (clear_conversation env sid st))) = Inr []
    \<and> agents_store (snd (clear_conversation env sid st))
        = (agents_store st)(sid \<mapsto> s\<lparr>messages := [],
             conversation_agent := (conversation_agent s)\<lparr>dialogue := initial_dialogue env\<rparr>\<rparr>)
    \<and> (\<exists>s'. agents_store (snd (clear_conversation env sid st)) sid = Some s'
          \<and> messages s' = []
          \<and> dialogue (conversation_agent s')
              = dialogue (new_conversation_agent env key mode)
          \<and> agent_api_key (conversation_agent s') = agent_api_key (conversation_agent s)
          \<and> agent_llm_mode (conversation_agent s') = agent_llm_mode (conversation_agent s)
          \<and> shopping_team s' = shopping_team s
          \<and> image_processor s' = image_processor s
          \<and> created_at s' = created_at s)
    \<and> calls (snd (clear_conversation env sid st)) = calls st @ [Call_reset]"
  using assms
  by (simp add: clear_conversation_def reset_def put_session_def log_call_def get_messages_def
      new_conversation_agent_def Let_def)

theorem clear_conversation_roundtrip_witness:
  "fst (clear_conversation example_env ''s1'' (example_state 3
          [\<lparr>role = ''user'', content = ''hello'', timestamp = ''t0'', type = None\<rparr>]))
     = Inr (True, ''Conversation cleared'')
   \<and> agents_store (snd (clear_conversation example_env ''s1'' (example_state 3
          [\<lparr>role = ''user'', content = ''hello'', timestamp = ''t0'', type = None\<rparr>])))
     = [''s1'' \<mapsto> example_session 0 []]"
proof -
  let ?ms = "[\<lparr>role = ''user'', content = ''hello'', timestamp = ''t0'', type = None\<rparr>]"
  have h: "agents_store (example_state 3 ?ms) ''s1'' = Some (example_session 3 ?ms)"
    by (simp add: example_state_def)
  show ?thesis
    using clear_conversation_roundtrip [OF h, of example_env]
    by (simp add: example_state_def example_session_def example_env_def)
qed

text \<open>
  Claim C8. After a successful \<^verbatim>\<open>delete_session\<close> the id is no longer in the store, a
  chat turn on it is answered with status 404, and so are clearing it, uploading an image
  to it, and deleting it a second time.
\<close>

theorem delete_session_then_not_found:
  assumes "fst (delete_session sid st) = Inr r"
    and "session_id chat_request = sid"
  shows "agents_store (snd (delete_session sid st)) sid = None
    \<and> process_chat env now chat_request (snd (delete_session sid st))
        = (Inl (HTTPException 404 ''Session not found. Please configure agents first.''),
           snd (delete_session sid st))
    \<and> clear_conversation env sid (snd (delete_session sid st))
        = (Inl (HTTPException 404 ''Session not found''), snd (delete_session sid st))
    \<and> upload_image env sid file (snd (delete_session sid st))
        = (Inl (HTTPException 404 ''Session not found''), snd (delete_session sid st))
    \<and> delete_session sid (snd (delete_session sid st))
        = (Inl (HTTPException 404 ''Session not found''), snd (delete_session sid st))"
  using assms
  by (auto simp add: delete_session_def process_chat_def clear_conversation_def
      upload_image_def split: option.splits)

theorem delete_session_then_not_found_witness:
  "fst (process_chat example_env example_now
          \<lparr>session_id = ''s1'', message = ''hello'', image_data = None\<rparr>
          (snd (delete_session ''s1'' (example_state 0 []))))
     = Inl (HTTPException 404 ''Session not found. Please configure agents first.'')
   \<and> fst (delete_session ''s1'' (snd (delete_session ''s1'' (example_state 0 []))))
     = Inl (HTTPException 404 ''Session not found'')"
proof -
  have h1: "fst (delete_session ''s1'' (example_state 0 [])) = Inr (True, ''Session deleted'')"
    by (simp add: delete_session_def example_state_def)
  have h2: "session_id \<lparr>session_id = ''s1'', message = ''hello'', image_data = None\<rparr> = ''s1''"
    by simp
  show ?thesis
    using delete_session_then_not_found [OF h1 h2, of example_env example_now]
    by simp
qed

text \<open>
  Claim C9. \<^verbatim>\<open>get_messages\<close> never fails: for an unknown id it returns the empty list,
  for a known id the whole message list of the session in its order, and it leaves the
  state as it is.
\<close>

theorem get_messages_total:
  "(agents_store st sid = None \<longrightarrow> fst (get_messages sid st) = Inr [])
   \<and> (\<forall>s. agents_store st sid = Some s \<longrightarrow> fst (get_messages sid st) = Inr (messages s))
   \<and> (\<exists>ms. fst (get_messages sid st) = Inr ms)
   \<and> snd (get_messages sid st) = st"
  by (auto simp add: get_messages_def split: option.splits)

theorem get_messages_total_witness:
  "fst (get_messages ''nobody'' (example_state 0 [])) = Inr []
   \<and> fst (get_messages ''s1'' (example_state 0
        [\<lparr>role = ''user'', content = ''hello'', timestamp = ''t0'', type = None\<rparr>]))
      = Inr [\<lparr>role = ''user'', content = ''hello'', timestamp = ''t0'', type = None\<rparr>]"
  using get_messages_total [of "example_state 0 []" "''nobody''"]
    get_messages_total [of "example_state 0
        [\<lparr>role = ''user'', content = ''hello'', timestamp = ''t0'', type = None\<rparr>]" "''s1''"]
  by (simp add: example_state_def example_session_def)

text \<open>
  Claim C10. Uploading an image to an existing session leaves the store as it is, for
  every file: the messages read afterwards are those of before, and nothing of the
  session changes. When the file is announced as an image, the only call made is the one
  to the Image Interpreter, with the content of the file and an empty hint, and when the
  interpreter answers, the response carries its text and the name of the file.
\<close>

theorem upload_image_frame:
  assumes "agents_store st sid = Some agents"
  shows "agents_store (snd (upload_image env sid file st)) = agents_store st
    \<and> get_messages sid (snd (upload_image env sid file st)) 
       = (Inr (messages agents), snd (upload_image env sid file st))
    \<and> (\<forall>ct. content_type file = Some ct \<and> take 6 ct = ''image/'' \<longrightarrow>
          calls (snd (upload_image env sid file st))
            = calls st @ [Call_process_image (file_content file) ''''])
    \<and> (\<forall>ct text. content_type file = Some ct \<and> take 6 ct = ''image/''
          \<and> process_image env (image_processor agents) (file_content file) '''' = Inr text \<longrightarrow>
          fst (upload_image env sid file st)
            = Inr \<lparr>upload_success = True, extracted_text = text,
                   upload_filename = filename file\<rparr>)"
  using assms
  by (auto simp add: upload_image_def log_call_def get_messages_def Let_def split: option.splits sum.splits)

theorem upload_image_frame_witness:
  "agents_store (snd (upload_image example_env ''s1''
        \<lparr>filename = Some ''shoes.png'', content_type = Some ''image/png'',
         file_content = [137, 80, 78, 71]\<rparr> (example_state 1 [])))
     = agents_store (example_state 1 [])
   \<and> fst (upload_image example_env ''s1''
        \<lparr>filename = Some ''shoes.png'', content_type = Some ''image/png'',
         file_content = [137, 80, 78, 71]\<rparr> (example_state 1 []))
     = Inr \<lparr>upload_success = True, extracted_text = ''a pair of red running shoes'',
            upload_filename = Some ''shoes.png''\<rparr>"
proof -
  have h: "agents_store (example_state 1 []) ''s1'' = Some (example_session 1 [])"
    by (simp add: example_state_def)
  show ?thesis
    using upload_image_frame [OF h, of example_env
        "\<lparr>filename = Some ''shoes.png'', content_type = Some ''image/png'',
          file_content = [137, 80, 78, 71]\<rparr>"]
    by (simp add: example_env_def)
qed

end
